theory Spec2Isabelle
  imports
    Complex_Main
    "HOL-Library.Word"
    "HOL-Library.Log_Nat"
    "HOL-Library.Sublist"
    "HOL-Library.Multiset"
    "HOL-Library.Product_Lexorder"
    "HOL-Library.List_Lexorder"
begin

unbundle bit_operations_syntax

section \<open>Python values\<close>

subsection \<open>Strings\<close>

text \<open>
  A Python \<open>str\<close> is a sequence of Unicode code points: \<open>len\<close>, slicing and comparison
  all work on code points, so a string is a list of code-point numbers. Comparison of two
  strings is the lexicographic order of these lists (\<open>HOL-Library.List_Lexorder\<close>).
  \<open>ustr ''abc''\<close> writes an ASCII literal.
\<close>

type_synonym ustr = "nat list"

definition ustr :: "string \<Rightarrow> ustr" where
  "ustr s = map of_char s"

text \<open>
  A Unicode scalar value is a code point that is not a surrogate: what UTF-8 can encode.
\<close>

definition unicode_scalar :: "nat \<Rightarrow> bool" where
  "unicode_scalar c = (c < 0x110000 \<and> \<not> (0xD800 \<le> c \<and> c \<le> 0xDFFF))"

text \<open>\<open>a or d\<close> for an \<open>Optional[str]\<close> \<open>a\<close>: \<open>None\<close> and the empty string are falsy.\<close>

definition or_str :: "ustr option \<Rightarrow> ustr \<Rightarrow> ustr" where
  "or_str a d = (case a of None \<Rightarrow> d | Some s \<Rightarrow> if s = [] then d else s)"

text \<open>\<open>key in s\<close>: \<open>key\<close> occurs in \<open>s\<close> as a contiguous substring.\<close>

fun str_contains :: "ustr \<Rightarrow> ustr \<Rightarrow> bool" where
  "str_contains [] key = (key = [])"
| "str_contains (c # s) key = (prefix key (c # s) \<or> str_contains s key)"

text \<open>
  The slice \<open>xs[:k]\<close>: the first \<open>k\<close> elements for \<open>k \<ge> 0\<close>; for \<open>k < 0\<close> all but the
  last \<open>-k\<close> elements (none when \<open>-k\<close> exceeds the length). It never raises.
\<close>

definition slice_to :: "int \<Rightarrow> 'a list \<Rightarrow> 'a list" where
  "slice_to k xs = (if 0 \<le> k then take (nat k) xs else take (nat (int (length xs) + k)) xs)"

subsection \<open>Floats\<close>

text \<open>
  A Python \<open>float\<close> is an IEEE 754 binary64 number. A finite double is modelled by its
  exact rational value; every literal and every arithmetic operation rounds the exact
  result to the nearest number with a 53-bit significand, ties to even. Exponent overflow
  and subnormals are not modelled: every float of this program lies between 0.3 and 5.
\<close>

definition round_half_even :: "rat \<Rightarrow> int" where
  "round_half_even x =
     (let f = \<lfloor>x\<rfloor>; r = x - of_int f
      in if r < 1 / 2 then f else if 1 / 2 < r then f + 1 else if even f then f else f + 1)"

text \<open>\<open>ilog2 x\<close> is the exponent \<open>e\<close> with \<open>2^e \<le> x < 2^(e+1)\<close>, for \<open>x > 0\<close>.\<close>

definition ilog2 :: "rat \<Rightarrow> int" where
  "ilog2 x = (if 1 \<le> x then bitlen \<lfloor>x\<rfloor> - 1 else - bitlen (\<lceil>1 / x\<rceil> - 1))"

definition fl_round :: "rat \<Rightarrow> rat" where
  "fl_round x =
     (if x = 0 then 0
      else let e = ilog2 \<bar>x\<bar> - 52
           in of_int (round_half_even (x / 2 powi e)) * 2 powi e)"

definition fl_mul :: "rat \<Rightarrow> rat \<Rightarrow> rat" where
  "fl_mul a b = fl_round (a * b)"

definition fl_add :: "rat \<Rightarrow> rat \<Rightarrow> rat" where
  "fl_add a b = fl_round (a + b)"

subsection \<open>JSON values\<close>

text \<open>
  What \<open>json.loads\<close> returns and what a dict literal of strings, integers, lists and
  dicts is: a dict is the list of its entries, each key once, looked up by key with
  \<open>map_of\<close>. A float is taken by its value, as far as it is finite.
\<close>

datatype json =
    JNull
  | JBool bool
  | JInt int
  | JFloat rat
  | JStr ustr
  | JList "json list"
  | JDict "(ustr \<times> json) list"

section \<open>Input items (models.py)\<close>

record DigestItemInput =
  title :: ustr
  url :: ustr
  source :: "ustr option"
  date :: "ustr option"
  snippet :: "ustr option"
  content :: "ustr option"
  author :: "ustr option"
  tags :: "ustr list"

section \<open>Library functions taken as parameters\<close>

text \<open>
  \<open>str.lower\<close> (the Unicode lower-case mapping) and \<open>datetime.strptime\<close> belong to the
  Python library, not to this repository. They are parameters of the model:
  \<open>strptime env text fmt\<close> is the parsed naive datetime in microseconds since the start of
  the calendar, or \<open>None\<close> where Python raises \<open>ValueError\<close>. Clock readings are
  passed in the same unit. \<open>lax_int env j\<close> is the integer that pydantic makes of a value
  \<open>j\<close> that is no \<open>int\<close> where an \<open>int\<close> is declared (a numeric string, a float without
  fraction), or \<open>None\<close> where it refuses.
\<close>

record pylib =
  str_lower :: "ustr \<Rightarrow> ustr"
  strptime :: "ustr \<Rightarrow> ustr \<Rightarrow> int option"
  lax_int :: "json \<Rightarrow> int option"

section \<open>Scoring (digest.py)\<close>

text \<open>The table \<open>_SOURCE_WEIGHTS\<close>, in the insertion order a dict iterates in.\<close>

definition SOURCE_WEIGHTS :: "(ustr \<times> int) list" where
  "SOURCE_WEIGHTS =
     [(ustr ''openai'', 5), (ustr ''anthropic'', 5), (ustr ''google'', 5),
      (ustr ''deepmind'', 5), (ustr ''meta'', 5), (ustr ''microsoft'', 4),
      (ustr ''nvidia'', 4), (ustr ''arxiv'', 4), (ustr ''huggingface'', 4),
      (ustr ''stability'', 4), (ustr ''mistral'', 4), (ustr ''cohere'', 4),
      (ustr ''together'', 3), (ustr ''github'', 3), (ustr ''techcrunch'', 3),
      (ustr ''theverge'', 3), (ustr ''venturebeat'', 3), (ustr ''hacker news'', 2),
      (ustr ''reddit'', 2)]"

text \<open>The loop of \<open>_source_weight\<close>: the first key found in the source or the URL wins.\<close>

fun first_weight :: "(ustr \<times> int) list \<Rightarrow> ustr \<Rightarrow> ustr \<Rightarrow> int" where
  "first_weight [] src u = 2"
| "first_weight ((key, weight) # rest) src u =
     (if str_contains src key \<or> str_contains u key then weight else first_weight rest src u)"

definition source_weight :: "pylib \<Rightarrow> DigestItemInput \<Rightarrow> int" where
  "source_weight env item =
     first_weight SOURCE_WEIGHTS (str_lower env (or_str (source item) [])) (str_lower env (url item))"

definition DATE_FORMATS :: "ustr list" where
  "DATE_FORMATS = [ustr ''%Y-%m-%d'', ustr ''%Y-%m-%dT%H:%M:%S'', ustr ''%Y-%m-%dT%H:%M:%SZ'']"

text \<open>The \<open>for ... else\<close> loop over the formats: the first format that parses wins.\<close>

fun parse_date :: "pylib \<Rightarrow> ustr list \<Rightarrow> ustr \<Rightarrow> int option" where
  "parse_date env [] text = None"
| "parse_date env (fmt # fmts) text =
     (case strptime env text fmt of Some dt \<Rightarrow> Some dt | None \<Rightarrow> parse_date env fmts text)"

definition MICROS_PER_DAY :: int where
  "MICROS_PER_DAY = 86400000000"

text \<open>
  \<open>now\<close> is the reading of \<open>datetime.now(timezone.utc).replace(tzinfo=None)\<close>. The
  \<open>days\<close> attribute of a \<open>timedelta\<close> is its length in days rounded down, also when the
  difference is negative.
\<close>

definition freshness_score :: "pylib \<Rightarrow> int \<Rightarrow> DigestItemInput \<Rightarrow> rat" where
  "freshness_score env now item =
     (case date item of
        None \<Rightarrow> 2
      | Some d \<Rightarrow>
          if d = [] then 2
          else (case parse_date env DATE_FORMATS (take 19 d) of
                  None \<Rightarrow> 2
                | Some dt \<Rightarrow>
                    let days_old = (now - dt) div MICROS_PER_DAY
                    in if days_old \<le> 1 then 5
                       else if days_old \<le> 3 then 4
                       else if days_old \<le> 7 then 3
                       else if days_old \<le> 30 then 2
                       else 1))"

definition content_length_score :: "DigestItemInput \<Rightarrow> rat" where
  "content_length_score item =
     (let text = or_str (content item) (or_str (snippet item) []);
          len = length text
      in if len > 5000 then 5
         else if len > 2000 then 4
         else if len > 500 then 3
         else if len > 100 then 2
         else 1)"

text \<open>The expression \<open>0.4 * w + 0.3 * f + 0.3 * c\<close> in double arithmetic, left to right.\<close>

definition composite :: "int \<Rightarrow> rat \<Rightarrow> rat \<Rightarrow> rat" where
  "composite w f c =
     fl_add (fl_add (fl_mul (fl_round (4 / 10)) (of_int w)) (fl_mul (fl_round (3 / 10)) f))
            (fl_mul (fl_round (3 / 10)) c)"

definition score :: "pylib \<Rightarrow> int \<Rightarrow> DigestItemInput \<Rightarrow> rat" where
  "score env now item =
     composite (source_weight env item) (freshness_score env now item) (content_length_score item)"

section \<open>Pre-ranking (digest.py)\<close>

text \<open>
  \<open>clock idx\<close> is the clock reading taken while item number \<open>idx\<close> is scored.
  \<open>list.sort\<close> is a stable sort by the key \<open>(-score, idx)\<close>, a tuple compared
  lexicographically.
\<close>

definition scored :: "pylib \<Rightarrow> (nat \<Rightarrow> int) \<Rightarrow> DigestItemInput list
    \<Rightarrow> (rat \<times> nat \<times> DigestItemInput) list" where
  "scored env clock items =
     map (\<lambda>(idx, item). (score env (clock idx) item, idx, item)) (enumerate 0 items)"

definition rank_key :: "rat \<times> nat \<times> DigestItemInput \<Rightarrow> rat \<times> nat" where
  "rank_key t = (- fst t, fst (snd t))"

definition pre_rank :: "pylib \<Rightarrow> (nat \<Rightarrow> int) \<Rightarrow> DigestItemInput list \<Rightarrow> int
    \<Rightarrow> DigestItemInput list" where
  "pre_rank env clock items top_k =
     map (\<lambda>(_, _, item). item) (slice_to top_k (sort_key rank_key (scored env clock items)))"

section \<open>Cache fingerprint (digest.py)\<close>

subsection \<open>Errors\<close>

text \<open>The exceptions that the modelled code can meet, as values.\<close>

datatype py_error =
    UnicodeEncodeError | JSONDecodeError | ValidationError | ServiceError
  | SerializationError | OSError

subsection \<open>\<open>json.dumps\<close> of a list of strings and UTF-8\<close>

type_synonym byte = "8 word"

definition hex_digit :: "nat \<Rightarrow> nat" where
  "hex_digit n = (if n < 10 then 48 + n else 87 + n)"

text \<open>
  With \<open>ensure_ascii=False\<close> the encoder escapes the quote, the backslash and the control
  characters below U+0020, and copies every other code point.
\<close>

definition json_escape :: "nat \<Rightarrow> ustr" where
  "json_escape c =
     (if c = 34 then [92, 34]
      else if c = 92 then [92, 92]
      else if c = 10 then [92, 110]
      else if c = 13 then [92, 114]
      else if c = 9 then [92, 116]
      else if c = 8 then [92, 98]
      else if c = 12 then [92, 102]
      else if c < 32 then [92, 117, 48, 48, hex_digit (c div 16), hex_digit (c mod 16)]
      else [c])"

definition json_str :: "ustr \<Rightarrow> ustr" where
  "json_str s = [34] @ concat (map json_escape s) @ [34]"

fun join :: "ustr \<Rightarrow> ustr list \<Rightarrow> ustr" where
  "join sep [] = []"
| "join sep [x] = x"
| "join sep (x # y # ys) = x @ sep @ join sep (y # ys)"

definition json_dumps :: "ustr list \<Rightarrow> ustr" where
  "json_dumps keys = [91] @ join [44, 32] (map json_str keys) @ [93]"

text \<open>
  \<open>str.encode("utf-8")\<close> raises \<open>UnicodeEncodeError\<close> on a surrogate code point. Numbers
  from U+110000 on are no code points of a Python string.
\<close>

definition utf8_char :: "nat \<Rightarrow> py_error + byte list" where
  "utf8_char c =
     (if c < 0x80 then Inr [of_nat c]
      else if c < 0x800 then Inr [of_nat (0xC0 + c div 64), of_nat (0x80 + c mod 64)]
      else if 0xD800 \<le> c \<and> c \<le> 0xDFFF then Inl UnicodeEncodeError
      else if c < 0x10000 then
        Inr [of_nat (0xE0 + c div 4096), of_nat (0x80 + c div 64 mod 64), of_nat (0x80 + c mod 64)]
      else if c < 0x110000 then
        Inr [of_nat (0xF0 + c div 262144), of_nat (0x80 + c div 4096 mod 64),
             of_nat (0x80 + c div 64 mod 64), of_nat (0x80 + c mod 64)]
      else Inl UnicodeEncodeError)"

fun utf8_encode :: "ustr \<Rightarrow> py_error + byte list" where
  "utf8_encode [] = Inr []"
| "utf8_encode (c # cs) =
     (case utf8_char c of
        Inl e \<Rightarrow> Inl e
      | Inr bs \<Rightarrow> (case utf8_encode cs of Inl e \<Rightarrow> Inl e | Inr rest \<Rightarrow> Inr (bs @ rest)))"

subsection \<open>SHA-256 (\<open>hashlib.sha256\<close>, FIPS 180-4)\<close>

type_synonym sha_state = "32 word \<times> 32 word \<times> 32 word \<times> 32 word \<times> 32 word \<times> 32 word \<times> 32 word \<times> 32 word"

definition K256 :: "32 word list" where
  "K256 =
    [0x428A2F98, 0x71374491, 0xB5C0FBCF, 0xE9B5DBA5, 0x3956C25B, 0x59F111F1, 0x923F82A4, 0xAB1C5ED5,
     0xD807AA98, 0x12835B01, 0x243185BE, 0x550C7DC3, 0x72BE5D74, 0x80DEB1FE, 0x9BDC06A7, 0xC19BF174,
     0xE49B69C1, 0xEFBE4786, 0x0FC19DC6, 0x240CA1CC, 0x2DE92C6F, 0x4A7484AA, 0x5CB0A9DC, 0x76F988DA,
     0x983E5152, 0xA831C66D, 0xB00327C8, 0xBF597FC7, 0xC6E00BF3, 0xD5A79147, 0x06CA6351, 0x14292967,
     0x27B70A85, 0x2E1B2138, 0x4D2C6DFC, 0x53380D13, 0x650A7354, 0x766A0ABB, 0x81C2C92E, 0x92722C85,
     0xA2BFE8A1, 0xA81A664B, 0xC24B8B70, 0xC76C51A3, 0xD192E819, 0xD6990624, 0xF40E3585, 0x106AA070,
     0x19A4C116, 0x1E376C08, 0x2748774C, 0x34B0BCB5, 0x391C0CB3, 0x4ED8AA4A, 0x5B9CCA4F, 0x682E6FF3,
     0x748F82EE, 0x78A5636F, 0x84C87814, 0x8CC70208, 0x90BEFFFA, 0xA4506CEB, 0xBEF9A3F7, 0xC67178F2]"

definition H256 :: sha_state where
  "H256 = (0x6A09E667, 0xBB67AE85, 0x3C6EF372, 0xA54FF53A, 0x510E527F, 0x9B05688C, 0x1F83D9AB, 0x5BE0CD19)"

definition ch :: "32 word \<Rightarrow> 32 word \<Rightarrow> 32 word \<Rightarrow> 32 word" where
  "ch x y z = (x AND y) XOR (NOT x AND z)"
definition maj :: "32 word \<Rightarrow> 32 word \<Rightarrow> 32 word \<Rightarrow> 32 word" where
  "maj x y z = (x AND y) XOR (x AND z) XOR (y AND z)"
definition bsig0 :: "32 word \<Rightarrow> 32 word" where
  "bsig0 x = word_rotr 2 x XOR word_rotr 13 x XOR word_rotr 22 x"
definition bsig1 :: "32 word \<Rightarrow> 32 word" where
  "bsig1 x = word_rotr 6 x XOR word_rotr 11 x XOR word_rotr 25 x"
definition ssig0 :: "32 word \<Rightarrow> 32 word" where
  "ssig0 x = word_rotr 7 x XOR word_rotr 18 x XOR drop_bit 3 x"
definition ssig1 :: "32 word \<Rightarrow> 32 word" where
  "ssig1 x = word_rotr 17 x XOR word_rotr 19 x XOR drop_bit 10 x"

definition sha_pad :: "byte list \<Rightarrow> byte list" where
  "sha_pad msg =
     msg @ [0x80] @ replicate ((119 - length msg mod 64) mod 64) 0
       @ map (\<lambda>i. ucast (drop_bit (8 * i) (of_nat (8 * length msg) :: 64 word))) [7, 6, 5, 4, 3, 2, 1, 0]"

function blocks64 :: "byte list \<Rightarrow> byte list list" where
  "blocks64 bs = (if length bs < 64 then [] else take 64 bs # blocks64 (drop 64 bs))"
  by pat_completeness auto
termination
  by (relation "measure length") auto

declare blocks64.simps [simp del]

definition be32 :: "byte list \<Rightarrow> 32 word" where
  "be32 bs = foldl (\<lambda>acc b. push_bit 8 acc OR ucast b) 0 bs"

definition block_words :: "byte list \<Rightarrow> 32 word list" where
  "block_words block = map (\<lambda>i. be32 (take 4 (drop (4 * i) block))) [0..<16]"

fun schedule :: "nat \<Rightarrow> 32 word list \<Rightarrow> 32 word list" where
  "schedule 0 w = w"
| "schedule (Suc n) w =
     schedule n (w @ [ssig1 (w ! (length w - 2)) + w ! (length w - 7)
                      + ssig0 (w ! (length w - 15)) + w ! (length w - 16)])"

fun sha_round :: "sha_state \<Rightarrow> 32 word \<times> 32 word \<Rightarrow> sha_state" where
  "sha_round (a, b, c, d, e, f, g, h) (k, w) =
     (let t1 = h + bsig1 e + ch e f g + k + w;
          t2 = bsig0 a + maj a b c
      in (t1 + t2, a, b, c, d + t1, e, f, g))"

fun add_state :: "sha_state \<Rightarrow> sha_state \<Rightarrow> sha_state" where
  "add_state (a, b, c, d, e, f, g, h) (a', b', c', d', e', f', g', h') =
     (a + a', b + b', c + c', d + d', e + e', f + f', g + g', h + h')"

definition compress :: "sha_state \<Rightarrow> byte list \<Rightarrow> sha_state" where
  "compress hs block =
     add_state hs (foldl sha_round hs (zip K256 (schedule 48 (block_words block))))"

definition sha256 :: "byte list \<Rightarrow> sha_state" where
  "sha256 msg = foldl compress H256 (blocks64 (sha_pad msg))"

definition hex32 :: "32 word \<Rightarrow> ustr" where
  "hex32 w = map (\<lambda>i. hex_digit (unat (drop_bit (4 * i) w AND 0xF))) [7, 6, 5, 4, 3, 2, 1, 0]"

fun hexdigest :: "sha_state \<Rightarrow> ustr" where
  "hexdigest (a, b, c, d, e, f, g, h) =
     hex32 a @ hex32 b @ hex32 c @ hex32 d @ hex32 e @ hex32 f @ hex32 g @ hex32 h"

subsection \<open>\<open>_items_hash\<close>\<close>

definition item_key :: "DigestItemInput \<Rightarrow> ustr" where
  "item_key it = title it @ [124] @ url it"

definition items_hash :: "DigestItemInput list \<Rightarrow> py_error + ustr" where
  "items_hash items =
     (let keys = sort (map item_key items)
      in case utf8_encode (json_dumps keys) of
           Inl e \<Rightarrow> Inl e
         | Inr blob \<Rightarrow> Inr (take 16 (hexdigest (sha256 blob))))"

section \<open>Digest output (models.py)\<close>

record DigestScores =
  importance :: int
  credibility :: int
  freshness :: int

record TopStory =
  ts_id :: ustr
  ts_title :: ustr
  subtitle :: ustr
  ts_url :: ustr
  ts_source :: ustr
  ts_date :: ustr
  ts_section :: ustr
  one_liner :: ustr
  bullets :: "ustr list"
  why_it_matters :: ustr
  action_items :: "ustr list"
  read_time_min :: int
  scores :: DigestScores
  ts_tags :: "ustr list"
  ts_notes :: ustr

record SectionItem =
  ref_id :: ustr
  si_title :: ustr
  si_url :: ustr
  si_source :: ustr
  si_date :: ustr
  si_one_liner :: ustr
  si_scores :: DigestScores
  si_tags :: "ustr list"

record Section =
  sec_name :: ustr
  sec_items :: "SectionItem list"

record SearchSummary =
  query_hint :: ustr
  matching_tags :: "ustr list"
  top_refs :: "ustr list"
  one_sentence_map :: ustr

record DuplicateRecord =
  dup_title :: ustr
  dup_url :: ustr
  merged_into :: ustr
  reason :: ustr

record DigestStats =
  items_in :: int
  items_kept :: int
  top_stories_count :: int
  duplicates_count :: int

record DigestOutput =
  schema_version :: ustr
  generated_at :: ustr
  stats :: DigestStats
  top_stories :: "TopStory list"
  sections :: "Section list"
  tag_index :: "(ustr \<times> ustr list) list"
  search_summaries :: "SearchSummary list"
  duplicates :: "DuplicateRecord list"

subsection \<open>Validation\<close>

text \<open>
  \<open>model_validate\<close> reads a dict field by field, as models.py declares the fields: a
  field without default must be present, a value must have the declared type, a list or
  a nested model is read element by element, and the \<open>Field\<close> bounds are checked. Every
  failure is a \<open>ValidationError\<close>. Keys that no field declares are ignored. A \<open>str\<close>
  field takes a string only, a list field a list only, a model or dict field a dict only;
  an \<open>int\<close> field takes an integer, and whatever else \<open>lax_int\<close> converts.
\<close>

definition v_str :: "json \<Rightarrow> py_error + ustr" where
  "v_str j = (case j of JStr s \<Rightarrow> Inr s | _ \<Rightarrow> Inl ValidationError)"

definition v_int :: "pylib \<Rightarrow> json \<Rightarrow> py_error + int" where
  "v_int env j =
     (case j of
        JInt i \<Rightarrow> Inr i
      | _ \<Rightarrow> (case lax_int env j of Some i \<Rightarrow> Inr i | None \<Rightarrow> Inl ValidationError))"

text \<open>\<open>int = Field(ge=1, le=5)\<close>.\<close>

definition v_score :: "pylib \<Rightarrow> json \<Rightarrow> py_error + int" where
  "v_score env j =
     (case v_int env j of
        Inl e \<Rightarrow> Inl e
      | Inr i \<Rightarrow> if 1 \<le> i \<and> i \<le> 5 then Inr i else Inl ValidationError)"

definition all_ok :: "(py_error + 'a) list \<Rightarrow> py_error + 'a list" where
  "all_ok rs = (if list_all (\<lambda>r. \<not> isl r) rs then Inr (map projr rs) else Inl ValidationError)"

definition v_list :: "(json \<Rightarrow> py_error + 'a) \<Rightarrow> json \<Rightarrow> py_error + 'a list" where
  "v_list v j = (case j of JList xs \<Rightarrow> all_ok (map v xs) | _ \<Rightarrow> Inl ValidationError)"

text \<open>\<open>list[str] = Field(min_length=3, max_length=5)\<close>.\<close>

definition v_bullets :: "json \<Rightarrow> py_error + ustr list" where
  "v_bullets j =
     (case v_list v_str j of
        Inl e \<Rightarrow> Inl e
      | Inr bs \<Rightarrow> if 3 \<le> length bs \<and> length bs \<le> 5 then Inr bs else Inl ValidationError)"

definition required :: "(ustr \<times> json) list \<Rightarrow> string \<Rightarrow> (json \<Rightarrow> py_error + 'a) \<Rightarrow> py_error + 'a" where
  "required d k v = (case map_of d (ustr k) of None \<Rightarrow> Inl ValidationError | Some j \<Rightarrow> v j)"

definition defaulted :: "(ustr \<times> json) list \<Rightarrow> string \<Rightarrow> (json \<Rightarrow> py_error + 'a) \<Rightarrow> 'a
    \<Rightarrow> py_error + 'a" where
  "defaulted d k v dflt = (case map_of d (ustr k) of None \<Rightarrow> Inr dflt | Some j \<Rightarrow> v j)"

definition validate_scores :: "pylib \<Rightarrow> json \<Rightarrow> py_error + DigestScores" where
  "validate_scores env j =
     (case j of
        JDict d \<Rightarrow>
          (let i = required d ''importance'' (v_score env);
               c = required d ''credibility'' (v_score env);
               f = required d ''freshness'' (v_score env)
           in if isl i \<or> isl c \<or> isl f then Inl ValidationError
              else Inr \<lparr>importance = projr i, credibility = projr c, freshness = projr f\<rparr>)
      | _ \<Rightarrow> Inl ValidationError)"

definition validate_story :: "pylib \<Rightarrow> json \<Rightarrow> py_error + TopStory" where
  "validate_story env j =
     (case j of
        JDict d \<Rightarrow>
          (let f_id = required d ''id'' v_str;
               f_title = required d ''title'' v_str;
               f_subtitle = required d ''subtitle'' v_str;
               f_url = required d ''url'' v_str;
               f_source = required d ''source'' v_str;
               f_date = required d ''date'' v_str;
               f_section = required d ''section'' v_str;
               f_one_liner = required d ''one_liner'' v_str;
               f_bullets = required d ''bullets'' v_bullets;
               f_why = required d ''why_it_matters'' v_str;
               f_actions = required d ''action_items'' (v_list v_str);
               f_read = required d ''read_time_min'' (v_int env);
               f_scores = required d ''scores'' (validate_scores env);
               f_tags = required d ''tags'' (v_list v_str);
               f_notes = defaulted d ''notes'' v_str []
           in if isl f_id \<or> isl f_title \<or> isl f_subtitle \<or> isl f_url \<or> isl f_source
                 \<or> isl f_date \<or> isl f_section \<or> isl f_one_liner \<or> isl f_bullets \<or> isl f_why
                 \<or> isl f_actions \<or> isl f_read \<or> isl f_scores \<or> isl f_tags \<or> isl f_notes
              then Inl ValidationError
              else Inr \<lparr>ts_id = projr f_id, ts_title = projr f_title,
                        subtitle = projr f_subtitle, ts_url = projr f_url,
                        ts_source = projr f_source, ts_date = projr f_date,
                        ts_section = projr f_section, one_liner = projr f_one_liner,
                        bullets = projr f_bullets, why_it_matters = projr f_why,
                        action_items = projr f_actions, read_time_min = projr f_read,
                        scores = projr f_scores, ts_tags = projr f_tags,
                        ts_notes = projr f_notes\<rparr>)
      | _ \<Rightarrow> Inl ValidationError)"

definition validate_section_item :: "pylib \<Rightarrow> json \<Rightarrow> py_error + SectionItem" where
  "validate_section_item env j =
     (case j of
        JDict d \<Rightarrow>
          (let f_ref = required d ''ref_id'' v_str;
               f_title = required d ''title'' v_str;
               f_url = required d ''url'' v_str;
               f_source = required d ''source'' v_str;
               f_date = required d ''date'' v_str;
               f_one_liner = required d ''one_liner'' v_str;
               f_scores = required d ''scores'' (validate_scores env);
               f_tags = defaulted d ''tags'' (v_list v_str) []
           in if isl f_ref \<or> isl f_title \<or> isl f_url \<or> isl f_source \<or> isl f_date
                 \<or> isl f_one_liner \<or> isl f_scores \<or> isl f_tags
              then Inl ValidationError
              else Inr \<lparr>ref_id = projr f_ref, si_title = projr f_title, si_url = projr f_url,
                        si_source = projr f_source, si_date = projr f_date,
                        si_one_liner = projr f_one_liner, si_scores = projr f_scores,
                        si_tags = projr f_tags\<rparr>)
      | _ \<Rightarrow> Inl ValidationError)"

definition validate_section :: "pylib \<Rightarrow> json \<Rightarrow> py_error + Section" where
  "validate_section env j =
     (case j of
        JDict d \<Rightarrow>
          (let f_name = required d ''name'' v_str;
               f_items = required d ''items'' (v_list (validate_section_item env))
           in if isl f_name \<or> isl f_items then Inl ValidationError
              else Inr \<lparr>sec_name = projr f_name, sec_items = projr f_items\<rparr>)
      | _ \<Rightarrow> Inl ValidationError)"

definition validate_summary :: "json \<Rightarrow> py_error + SearchSummary" where
  "validate_summary j =
     (case j of
        JDict d \<Rightarrow>
          (let f_hint = required d ''query_hint'' v_str;
               f_tags = required d ''matching_tags'' (v_list v_str);
               f_refs = required d ''top_refs'' (v_list v_str);
               f_map = required d ''one_sentence_map'' v_str
           in if isl f_hint \<or> isl f_tags \<or> isl f_refs \<or> isl f_map then Inl ValidationError
              else Inr \<lparr>query_hint = projr f_hint, matching_tags = projr f_tags,
                        top_refs = projr f_refs, one_sentence_map = projr f_map\<rparr>)
      | _ \<Rightarrow> Inl ValidationError)"

definition validate_duplicate :: "json \<Rightarrow> py_error + DuplicateRecord" where
  "validate_duplicate j =
     (case j of
        JDict d \<Rightarrow>
          (let f_title = required d ''title'' v_str;
               f_url = required d ''url'' v_str;
               f_into = required d ''merged_into'' v_str;
               f_reason = required d ''reason'' v_str
           in if isl f_title \<or> isl f_url \<or> isl f_into \<or> isl f_reason then Inl ValidationError
              else Inr \<lparr>dup_title = projr f_title, dup_url = projr f_url,
                        merged_into = projr f_into, reason = projr f_reason\<rparr>)
      | _ \<Rightarrow> Inl ValidationError)"

definition validate_stats :: "pylib \<Rightarrow> json \<Rightarrow> py_error + DigestStats" where
  "validate_stats env j =
     (case j of
        JDict d \<Rightarrow>
          (let f_in = required d ''items_in'' (v_int env);
               f_kept = required d ''items_kept'' (v_int env);
               f_top = required d ''top_stories_count'' (v_int env);
               f_dup = required d ''duplicates_count'' (v_int env)
           in if isl f_in \<or> isl f_kept \<or> isl f_top \<or> isl f_dup then Inl ValidationError
              else Inr \<lparr>items_in = projr f_in, items_kept = projr f_kept,
                        top_stories_count = projr f_top, duplicates_count = projr f_dup\<rparr>)
      | _ \<Rightarrow> Inl ValidationError)"

text \<open>\<open>dict[str, list[str]]\<close>.\<close>

definition v_tag_index :: "json \<Rightarrow> py_error + (ustr \<times> ustr list) list" where
  "v_tag_index j =
     (case j of
        JDict d \<Rightarrow>
          all_ok (map (\<lambda>(k, v). case v_list v_str v of Inl e \<Rightarrow> Inl e | Inr refs \<Rightarrow> Inr (k, refs)) d)
      | _ \<Rightarrow> Inl ValidationError)"

definition model_validate :: "pylib \<Rightarrow> json \<Rightarrow> py_error + DigestOutput" where
  "model_validate env j =
     (case j of
        JDict d \<Rightarrow>
          (let f_version = defaulted d ''schema_version'' v_str (ustr ''v1'');
               f_generated = required d ''generated_at'' v_str;
               f_stats = required d ''stats'' (validate_stats env);
               f_stories = required d ''top_stories'' (v_list (validate_story env));
               f_sections = required d ''sections'' (v_list (validate_section env));
               f_index = defaulted d ''tag_index'' v_tag_index [];
               f_summaries = defaulted d ''search_summaries'' (v_list validate_summary) [];
               f_duplicates = defaulted d ''duplicates'' (v_list validate_duplicate) []
           in if isl f_version \<or> isl f_generated \<or> isl f_stats \<or> isl f_stories
                 \<or> isl f_sections \<or> isl f_index \<or> isl f_summaries \<or> isl f_duplicates
              then Inl ValidationError
              else Inr \<lparr>schema_version = projr f_version, generated_at = projr f_generated,
                        stats = projr f_stats, top_stories = projr f_stories,
                        sections = projr f_sections, tag_index = projr f_index,
                        search_summaries = projr f_summaries,
                        duplicates = projr f_duplicates\<rparr>)
      | _ \<Rightarrow> Inl ValidationError)"


section \<open>Fallback digest (digest.py)\<close>

text \<open>\<open>str.strip()\<close> removes the code points for which \<open>str.isspace\<close> holds.\<close>

definition is_space :: "nat \<Rightarrow> bool" where
  "is_space c =
     ((9 \<le> c \<and> c \<le> 13) \<or> (28 \<le> c \<and> c \<le> 32) \<or> c = 0x85 \<or> c = 0xA0 \<or> c = 0x1680
      \<or> (0x2000 \<le> c \<and> c \<le> 0x200A) \<or> c = 0x2028 \<or> c = 0x2029 \<or> c = 0x202F
      \<or> c = 0x205F \<or> c = 0x3000)"

definition strip_chars :: "(nat \<Rightarrow> bool) \<Rightarrow> ustr \<Rightarrow> ustr" where
  "strip_chars p s = rev (dropWhile p (rev (dropWhile p s)))"

text \<open>The character class \<open>[a-z0-9U+4E00-U+9FFF]\<close>.\<close>

definition slug_char :: "nat \<Rightarrow> bool" where
  "slug_char c = ((97 \<le> c \<and> c \<le> 122) \<or> (48 \<le> c \<and> c \<le> 57) \<or> (0x4e00 \<le> c \<and> c \<le> 0x9fff))"

text \<open>
  \<open>re.sub(r"[^a-z0-9U+4E00-U+9FFF]+", "-", text)\<close>: every maximal run of characters
  outside the class becomes one hyphen. The flag tells whether the previous character was
  part of such a run.
\<close>

fun sub_runs :: "bool \<Rightarrow> ustr \<Rightarrow> ustr" where
  "sub_runs in_run [] = []"
| "sub_runs in_run (c # cs) =
     (if slug_char c then c # sub_runs False cs
      else if in_run then sub_runs True cs
      else 45 # sub_runs True cs)"

definition slugify :: "pylib \<Rightarrow> ustr \<Rightarrow> ustr" where
  "slugify env text =
     take 60 (strip_chars (\<lambda>c. c = 45) (sub_runs False (strip_chars is_space (str_lower env text))))"

text \<open>The decimal digits of \<open>n\<close>, as \<open>f"{n}"\<close> prints them.\<close>

function decimal :: "nat \<Rightarrow> ustr" where
  "decimal n = (if n < 10 then [48 + n] else decimal (n div 10) @ [48 + n mod 10])"
  by pat_completeness auto
termination
  by (relation "measure id") auto

declare decimal.simps [simp del]

definition story_id :: "pylib \<Rightarrow> nat \<Rightarrow> DigestItemInput \<Rightarrow> ustr" where
  "story_id env i item =
     (let s = slugify env (title item) in if s = [] then ustr ''item-'' @ decimal i else s)"

definition WHY_PLACEHOLDER :: ustr where
  "WHY_PLACEHOLDER =
     [38656, 35201, 32, 76, 76, 77, 32, 29983, 25104, 35814, 32454, 20998, 26512]"

definition ACTION_PLACEHOLDER :: ustr where
  "ACTION_PLACEHOLDER =
     [37197, 32622, 32, 79, 80, 69, 78, 65, 73, 95, 65, 80, 73, 95, 75, 69, 89, 32,
      20197, 33719, 21462, 23436, 25972, 25688, 35201]"

definition NOTES_PLACEHOLDER :: ustr where
  "NOTES_PLACEHOLDER =
     [77, 111, 99, 107, 32, 29983, 25104, 65292, 20165, 32467, 26500, 21344, 20301]"

definition SOURCE_LABEL :: ustr where
  "SOURCE_LABEL = [26469, 28304, 58, 32]"

definition DATE_LABEL :: ustr where
  "DATE_LABEL = [26085, 26399, 58, 32]"

text \<open>The dict \<open>story\<close> of the loop body, for item number \<open>i\<close>.\<close>

definition story_dict :: "pylib \<Rightarrow> ustr \<Rightarrow> nat \<Rightarrow> DigestItemInput \<Rightarrow> (ustr \<times> json) list" where
  "story_dict env sec i item =
     [(ustr ''id'', JStr (story_id env i item)),
      (ustr ''title'', JStr (title item)),
      (ustr ''subtitle'', JStr (take 40 (title item))),
      (ustr ''url'', JStr (url item)),
      (ustr ''source'', JStr (or_str (source item) (ustr ''unknown''))),
      (ustr ''date'', JStr (or_str (date item) (ustr ''unknown''))),
      (ustr ''section'', JStr sec),
      (ustr ''one_liner'', JStr (take 26 (title item))),
      (ustr ''bullets'',
         JList [JStr (take 22 (or_str (snippet item) (title item))),
                JStr (take 22 (SOURCE_LABEL @ or_str (source item) (ustr ''unknown''))),
                JStr (take 22 (DATE_LABEL @ or_str (date item) (ustr ''unknown'')))]),
      (ustr ''why_it_matters'', JStr WHY_PLACEHOLDER),
      (ustr ''action_items'', JList [JStr ACTION_PLACEHOLDER]),
      (ustr ''read_time_min'',
         JInt (max 1 (int (length (or_str (content item) (or_str (snippet item) []))) div 1500))),
      (ustr ''scores'',
         JDict [(ustr ''importance'', JInt 3), (ustr ''credibility'', JInt 3),
                (ustr ''freshness'', JInt 3)]),
      (ustr ''tags'', JList (map JStr (if tags item = [] then [ustr ''untagged''] else tags item))),
      (ustr ''notes'', JStr NOTES_PLACEHOLDER)]"

text \<open>The dict \<open>sec_item\<close> of the loop body.\<close>

definition section_item_dict :: "pylib \<Rightarrow> nat \<Rightarrow> DigestItemInput \<Rightarrow> (ustr \<times> json) list" where
  "section_item_dict env i item =
     [(ustr ''ref_id'', JStr (story_id env i item)),
      (ustr ''title'', JStr (title item)),
      (ustr ''url'', JStr (url item)),
      (ustr ''source'', JStr (or_str (source item) (ustr ''unknown''))),
      (ustr ''date'', JStr (or_str (date item) (ustr ''unknown''))),
      (ustr ''one_liner'', JStr (take 26 (title item))),
      (ustr ''scores'',
         JDict [(ustr ''importance'', JInt 3), (ustr ''credibility'', JInt 3),
                (ustr ''freshness'', JInt 3)]),
      (ustr ''tags'', JList (map JStr (tags item)))]"

text \<open>\<open>section_map.setdefault(key, []).append(v)\<close> on a dict kept in insertion order.\<close>

fun setdefault_append :: "(ustr \<times> 'a list) list \<Rightarrow> ustr \<Rightarrow> 'a \<Rightarrow> (ustr \<times> 'a list) list" where
  "setdefault_append [] key v = [(key, [v])]"
| "setdefault_append ((k, vs) # m) key v =
     (if k = key then (k, vs @ [v]) # m else (k, vs) # setdefault_append m key v)"

text \<open>
  One pass of the loop body of \<open>_mock_digest\<close> over \<open>(i, item)\<close>; the accumulator holds
  \<open>top_stories\<close> and \<open>section_map\<close>.
\<close>

definition mock_step :: "pylib \<Rightarrow> json list \<times> (ustr \<times> json list) list
    \<Rightarrow> nat \<times> DigestItemInput \<Rightarrow> json list \<times> (ustr \<times> json list) list" where
  "mock_step env acc p =
     (let sec = ustr ''Other'';
          story = JDict (story_dict env sec (fst p) (snd p));
          sec_item = JDict (section_item_dict env (fst p) (snd p))
      in (fst acc @ [story], setdefault_append (snd acc) sec sec_item))"

text \<open>\<open>today\<close> is \<open>datetime.now().strftime("%Y-%m-%d")\<close>.\<close>

definition mock_digest :: "pylib \<Rightarrow> ustr \<Rightarrow> DigestItemInput list \<Rightarrow> int \<Rightarrow> py_error + DigestOutput" where
  "mock_digest env today items all_count =
     (let acc = foldl (mock_step env) ([], []) (enumerate 0 (slice_to 12 items));
          stories = fst acc;
          secs = map (\<lambda>(k, v). JDict [(ustr ''name'', JStr k), (ustr ''items'', JList v)]) (snd acc)
      in model_validate env
           (JDict
             [(ustr ''schema_version'', JStr (ustr ''v1'')),
              (ustr ''generated_at'', JStr today),
              (ustr ''stats'',
                 JDict [(ustr ''items_in'', JInt all_count),
                        (ustr ''items_kept'', JInt (int (length stories))),
                        (ustr ''top_stories_count'', JInt (int (length stories))),
                        (ustr ''duplicates_count'', JInt 0)]),
              (ustr ''top_stories'', JList stories),
              (ustr ''sections'', JList secs),
              (ustr ''tag_index'', JDict []),
              (ustr ''search_summaries'', JList []),
              (ustr ''duplicates'', JList [])]))"

section \<open>Generation with cache and fallback (digest.py)\<close>

text \<open>
  The JSON reader, the serialiser of pydantic, the file system and the chat-completion
  service are outside the repository, and are parameters. \<open>json_loads text\<close> is the value
  read from a JSON text or the exception of the reader. \<open>dump_json d\<close> is the text of
  \<open>model_dump_json\<close> or its exception. \<open>read_error h\<close> is the exception, if any, of
  creating the cache directory and reading the file of fingerprint \<open>h\<close>; \<open>write_error h
  text\<close> is the exception, if any, of creating the directory and writing \<open>text\<close> to that
  file.
  \<open>chat_completion\<close> gets the model name, the item payload and the total count, and gives
  the content of the first choice (which may be \<open>None\<close>) or the exception raised on the
  way.
\<close>

record services =
  json_loads :: "ustr \<Rightarrow> py_error + json"
  dump_json :: "DigestOutput \<Rightarrow> py_error + ustr"
  read_error :: "ustr \<Rightarrow> py_error option"
  write_error :: "ustr \<Rightarrow> ustr \<Rightarrow> py_error option"
  chat_completion :: "ustr \<Rightarrow> DigestItemInput list \<Rightarrow> int \<Rightarrow> py_error + ustr option"

record Settings =
  openai_api_key :: "ustr option"
  model :: ustr

text \<open>
  The cache directory: the text of the file \<open>digest_<h>.json\<close>, by fingerprint \<open>h\<close>.
  A write that raises is taken to leave the directory as it was.
\<close>

type_synonym cache = "ustr \<rightharpoonup> ustr"

text \<open>\<open>model_validate_json\<close> reports a text that is no JSON as a \<open>ValidationError\<close>.\<close>

definition model_validate_json :: "pylib \<Rightarrow> services \<Rightarrow> ustr \<Rightarrow> py_error + DigestOutput" where
  "model_validate_json env svc text =
     (case json_loads svc text of Inl e \<Rightarrow> Inl ValidationError | Inr j \<Rightarrow> model_validate env j)"

definition cache_get :: "pylib \<Rightarrow> services \<Rightarrow> cache \<Rightarrow> ustr \<Rightarrow> py_error + DigestOutput option" where
  "cache_get env svc store h =
     (case read_error svc h of
        Some e \<Rightarrow> Inl e
      | None \<Rightarrow>
          (case store h of
             None \<Rightarrow> Inr None
           | Some text \<Rightarrow>
               (case model_validate_json env svc text of
                  Inl e \<Rightarrow> Inl e
                | Inr d \<Rightarrow> Inr (Some d))))"

definition cache_put :: "services \<Rightarrow> cache \<Rightarrow> ustr \<Rightarrow> DigestOutput \<Rightarrow> py_error + cache" where
  "cache_put svc store h output =
     (case dump_json svc output of
        Inl e \<Rightarrow> Inl e
      | Inr text \<Rightarrow>
          (case write_error svc h text of Some e \<Rightarrow> Inl e | None \<Rightarrow> Inr (store(h \<mapsto> text))))"

text \<open>
  \<open>if use_cache: _cache_put(h, result)\<close> and \<open>return result\<close>, as all three paths end: an
  exception of the write takes the place of the result.
\<close>

definition put_and_return :: "services \<Rightarrow> cache \<Rightarrow> ustr \<Rightarrow> bool \<Rightarrow> DigestOutput
    \<Rightarrow> py_error + DigestOutput \<times> cache" where
  "put_and_return svc store h use_cache result =
     (if use_cache
      then (case cache_put svc store h result of
              Inl e \<Rightarrow> Inl e
            | Inr store' \<Rightarrow> Inr (result, store'))
      else Inr (result, store))"

text \<open>The payload caps \<open>content\<close> at 3000 characters and appends an ellipsis.\<close>

definition cap_content :: "DigestItemInput \<Rightarrow> DigestItemInput" where
  "cap_content it =
     (case content it of
        None \<Rightarrow> it
      | Some c \<Rightarrow> if c \<noteq> [] \<and> length c > 3000 then it\<lparr>content := Some (take 3000 c @ [8230])\<rparr> else it)"

text \<open>The body of the \<open>try\<close> block up to the validated result.\<close>

definition llm_generate :: "pylib \<Rightarrow> services \<Rightarrow> Settings \<Rightarrow> DigestItemInput list \<Rightarrow> int
    \<Rightarrow> py_error + DigestOutput" where
  "llm_generate env svc settings items all_count =
     (case chat_completion svc (model settings) (map cap_content items) all_count of
        Inl e \<Rightarrow> Inl e
      | Inr msg \<Rightarrow>
          (case json_loads svc (or_str msg (ustr ''{}'')) of
             Inl e \<Rightarrow> Inl e
           | Inr data \<Rightarrow> model_validate env data))"

text \<open>
  \<open>_mock_digest\<close> followed by the cache write, as the path without credential and the
  \<open>except\<close> handler run them: nothing catches an exception of either.
\<close>

definition mock_and_cache :: "pylib \<Rightarrow> services \<Rightarrow> ustr \<Rightarrow> cache \<Rightarrow> ustr
    \<Rightarrow> DigestItemInput list \<Rightarrow> int \<Rightarrow> bool \<Rightarrow> (py_error + DigestOutput) \<times> cache" where
  "mock_and_cache env svc today store h items all_count use_cache =
     (case mock_digest env today items all_count of
        Inl e \<Rightarrow> (Inl e, store)
      | Inr result \<Rightarrow>
          (case put_and_return svc store h use_cache result of
             Inl e \<Rightarrow> (Inl e, store)
           | Inr (r, store') \<Rightarrow> (Inr r, store')))"

text \<open>
  The \<open>try\<close> block holds the service call, the validation and the cache write: an
  exception of any of the three runs the handler.
\<close>

definition generate_digest_json :: "pylib \<Rightarrow> services \<Rightarrow> Settings \<Rightarrow> ustr \<Rightarrow> cache
    \<Rightarrow> DigestItemInput list \<Rightarrow> int \<Rightarrow> bool \<Rightarrow> (py_error + DigestOutput) \<times> cache" where
  "generate_digest_json env svc settings today store items all_count use_cache =
     (case items_hash items of
        Inl e \<Rightarrow> (Inl e, store)
      | Inr h \<Rightarrow>
          (case (if use_cache then cache_get env svc store h else Inr None) of
             Inl e \<Rightarrow> (Inl e, store)
           | Inr (Some cached) \<Rightarrow> (Inr cached, store)
           | Inr None \<Rightarrow>
               if or_str (openai_api_key settings) [] = []
               then mock_and_cache env svc today store h items all_count use_cache
               else (case (case llm_generate env svc settings items all_count of
                             Inl e \<Rightarrow> Inl e
                           | Inr result \<Rightarrow> put_and_return svc store h use_cache result) of
                       Inr (r, store') \<Rightarrow> (Inr r, store')
                     | Inl e \<Rightarrow>
                         mock_and_cache env svc today store h items all_count use_cache)))"

section \<open>Sample values\<close>

text \<open>
  A library instance for concrete runs: \<open>lower\<close> on ASCII letters, a \<open>strptime\<close> that
  knows the single date \<open>2024-05-01\<close>, day 738641 of the calendar, and no conversion to
  \<open>int\<close>.
\<close>

definition ascii_lower :: "ustr \<Rightarrow> ustr" where
  "ascii_lower s = map (\<lambda>c. if 65 \<le> c \<and> c \<le> 90 then c + 32 else c) s"

definition lib0 :: pylib where
  "lib0 = \<lparr>str_lower = ascii_lower,
            strptime = (\<lambda>text fmt.
              if text = ustr ''2024-05-01'' \<and> fmt = ustr ''%Y-%m-%d''
              then Some (738641 * MICROS_PER_DAY) else None),
            lax_int = (\<lambda>j. None)\<rparr>"

definition item_ab :: DigestItemInput where
  "item_ab = \<lparr>title = ustr ''a'', url = ustr ''b'', source = None, date = None,
               snippet = None, content = None, author = None, tags = []\<rparr>"

definition item_openai :: DigestItemInput where
  "item_openai = \<lparr>title = ustr ''GPT'', url = ustr ''https://example.org/x'',
                   source = Some (ustr ''OpenAI''), date = Some (ustr ''2024-05-01''),
                   snippet = None, content = Some (replicate 6000 120), author = None,
                   tags = []\<rparr>"

definition item_surrogate :: DigestItemInput where
  "item_surrogate = \<lparr>title = [0xD800], url = ustr ''u'', source = None, date = None,
               snippet = None, content = None, author = None, tags = []\<rparr>"

definition item_ab_tagged :: DigestItemInput where
  "item_ab_tagged = \<lparr>title = ustr ''a'', url = ustr ''b'', source = Some (ustr ''reddit''), date = None,
               snippet = None, content = None, author = None, tags = [ustr ''x'']\<rparr>"

definition item_a_bang :: DigestItemInput where
  "item_a_bang = \<lparr>title = ustr ''A!'', url = ustr ''c'', source = None, date = None,
               snippet = None, content = None, author = None, tags = []\<rparr>"

definition item_snippet :: DigestItemInput where
  "item_snippet = \<lparr>title = ustr ''t'', url = ustr ''https://example.org/y'', source = None,
                    date = None, snippet = Some (replicate 50 120), content = None,
                    author = None, tags = []\<rparr>"




text \<open>
  Services for concrete runs. \<open>dump_bullets\<close> is a serialiser that raises on a bullet
  with a surrogate, as one that writes UTF-8 must.
\<close>

definition dump_bullets :: "DigestOutput \<Rightarrow> py_error + ustr" where
  "dump_bullets d =
     (if list_all (\<lambda>t. list_all (list_all unicode_scalar) (bullets t)) (top_stories d)
      then Inr (generated_at d) else Inl SerializationError)"

definition svc0 :: services where
  "svc0 = \<lparr>json_loads = (\<lambda>text. Inl JSONDecodeError),
            dump_json = dump_bullets,
            read_error = (\<lambda>h. None),
            write_error = (\<lambda>h text. None),
            chat_completion = (\<lambda>m payload n. Inl ServiceError)\<rparr>"


definition settings0 :: Settings where
  "settings0 = \<lparr>openai_api_key = Some (ustr ''sk-test''), model = ustr ''gpt-4o-mini''\<rparr>"

definition store_bad :: cache where
  "store_bad = [ustr ''6c2b14bbe61b6369'' \<mapsto> ustr ''not json'']"

section \<open>Notions used in the properties\<close>

text \<open>
  \<open>before env clock items i j\<close>: item \<open>i\<close> ranks before item \<open>j\<close>, by a higher score or,
  at equal scores, by the earlier input position.
\<close>

definition before :: "pylib \<Rightarrow> (nat \<Rightarrow> int) \<Rightarrow> DigestItemInput list \<Rightarrow> nat \<Rightarrow> nat \<Rightarrow> bool" where
  "before env clock items i j =
     (score env (clock j) (items ! j) < score env (clock i) (items ! i)
      \<or> (score env (clock i) (items ! i) = score env (clock j) (items ! j) \<and> i < j))"

definition encodable_item :: "DigestItemInput \<Rightarrow> bool" where
  "encodable_item it = (list_all unicode_scalar (title it) \<and> list_all unicode_scalar (url it))"

definition is_hex :: "nat \<Rightarrow> bool" where
  "is_hex c = ((48 \<le> c \<and> c \<le> 57) \<or> (97 \<le> c \<and> c \<le> 102))"

text \<open>
  The date of the item parses, to a moment of the calendar day of \<open>now\<close>; and: no key of
  the weight table occurs in the source label or in the URL.
\<close>

definition dated_on_day :: "pylib \<Rightarrow> int \<Rightarrow> DigestItemInput \<Rightarrow> bool" where
  "dated_on_day env now item =
     (case date item of
        None \<Rightarrow> False
      | Some d \<Rightarrow>
          d \<noteq> [] \<and>
          (case parse_date env DATE_FORMATS (take 19 d) of
             None \<Rightarrow> False
           | Some dt \<Rightarrow> dt div MICROS_PER_DAY = now div MICROS_PER_DAY))"

definition unknown_source :: "pylib \<Rightarrow> DigestItemInput \<Rightarrow> bool" where
  "unknown_source env item =
     list_all (\<lambda>(key, w). \<not> str_contains (str_lower env (or_str (source item) [])) key
                          \<and> \<not> str_contains (str_lower env (url item)) key) SOURCE_WEIGHTS"

text \<open>
  The story and the section item that validation makes of the dicts of the fallback.
\<close>

definition NEUTRAL_SCORES :: DigestScores where
  "NEUTRAL_SCORES = \<lparr>importance = 3, credibility = 3, freshness = 3\<rparr>"

definition mock_story :: "pylib \<Rightarrow> nat \<Rightarrow> DigestItemInput \<Rightarrow> TopStory" where
  "mock_story env i item =
     \<lparr>ts_id = story_id env i item,
      ts_title = title item,
      subtitle = take 40 (title item),
      ts_url = url item,
      ts_source = or_str (source item) (ustr ''unknown''),
      ts_date = or_str (date item) (ustr ''unknown''),
      ts_section = ustr ''Other'',
      one_liner = take 26 (title item),
      bullets =
        [take 22 (or_str (snippet item) (title item)),
         take 22 (SOURCE_LABEL @ or_str (source item) (ustr ''unknown'')),
         take 22 (DATE_LABEL @ or_str (date item) (ustr ''unknown''))],
      why_it_matters = WHY_PLACEHOLDER,
      action_items = [ACTION_PLACEHOLDER],
      read_time_min =
        max 1 (int (length (or_str (content item) (or_str (snippet item) []))) div 1500),
      scores = NEUTRAL_SCORES,
      ts_tags = (if tags item = [] then [ustr ''untagged''] else tags item),
      ts_notes = NOTES_PLACEHOLDER\<rparr>"

definition mock_section_item :: "pylib \<Rightarrow> nat \<Rightarrow> DigestItemInput \<Rightarrow> SectionItem" where
  "mock_section_item env i item =
     \<lparr>ref_id = story_id env i item,
      si_title = title item,
      si_url = url item,
      si_source = or_str (source item) (ustr ''unknown''),
      si_date = or_str (date item) (ustr ''unknown''),
      si_one_liner = take 26 (title item),
      si_scores = NEUTRAL_SCORES,
      si_tags = tags item\<rparr>"

text \<open>The stories of a fallback digest: one for each of the first 12 items.\<close>

definition mock_stories :: "pylib \<Rightarrow> DigestItemInput list \<Rightarrow> TopStory list" where
  "mock_stories env items = map (\<lambda>p. mock_story env (fst p) (snd p)) (enumerate 0 (take 12 items))"







section \<open>Properties of the composite score\<close>

lemma composite_555: "composite 5 5 5 = 5"
  by code_simp

lemma composite_221: "composite 2 2 1 = fl_round (17 / 10)"
  by code_simp

lemma score_item_ab: "score lib0 0 item_ab = fl_round (17 / 10)"
  by (simp add: score_def source_weight_def freshness_score_def content_length_score_def
        item_ab_def lib0_def ascii_lower_def or_str_def SOURCE_WEIGHTS_def ustr_def composite_221)

lemma score_item_openai: "score lib0 0 item_openai = 5"
  by (simp add: score_def source_weight_def freshness_score_def content_length_score_def
        item_openai_def lib0_def ascii_lower_def or_str_def SOURCE_WEIGHTS_def ustr_def
        DATE_FORMATS_def MICROS_PER_DAY_def composite_555)

lemma double_1_7_less_5: "fl_round (17 / 10) < 5"
  by code_simp

lemma first_weight_unknown:
  "list_all (\<lambda>(key, w). \<not> str_contains src key \<and> \<not> str_contains u key) tbl
     \<Longrightarrow> first_weight tbl src u = 2"
  by (induction tbl src u rule: first_weight.induct) auto

lemma same_day_fresh:
  assumes "dt div MICROS_PER_DAY = now div MICROS_PER_DAY"
  shows "(now - dt) div MICROS_PER_DAY \<le> 1"
proof -
  have "now - dt < MICROS_PER_DAY"
    using assms unfolding MICROS_PER_DAY_def by simp
  then show ?thesis unfolding MICROS_PER_DAY_def by simp
qed

lemma scenario_a:
  assumes "source item = Some (ustr ''OpenAI'')" "str_lower env (ustr ''OpenAI'') = ustr ''openai''"
    and "dated_on_day env now item" and "content item = Some c" "length c = 6000"
  shows "score env now item = 5"
proof -
  have w: "source_weight env item = 5"
    using assms(1,2) by (simp add: source_weight_def or_str_def SOURCE_WEIGHTS_def ustr_def)
  have f: "freshness_score env now item = 5"
    using assms(3) by (auto simp: dated_on_day_def freshness_score_def same_day_fresh
        split: option.splits)
  have c: "content_length_score item = 5"
    using assms(4,5) by (auto simp: content_length_score_def or_str_def)
  show ?thesis by (simp add: score_def w f c composite_555)
qed

lemma scenario_b:
  assumes "unknown_source env item" "date item = None" "content item = None"
    and "snippet item = Some s" "length s = 50"
  shows "score env now item = fl_round (17 / 10)"
proof -
  have w: "source_weight env item = 2"
    using assms(1) by (simp add: source_weight_def unknown_source_def first_weight_unknown)
  have f: "freshness_score env now item = 2"
    using assms(2) by (simp add: freshness_score_def)
  have c: "content_length_score item = 1"
    using assms(3,4,5) by (auto simp: content_length_score_def or_str_def)
  show ?thesis by (simp add: score_def w f c composite_221)
qed

text \<open>
  Claim C9. The composite score is \<open>0.4 * source_weight + 0.3 * freshness + 0.3 *
  content_volume\<close>, evaluated in double arithmetic. An item with source \<open>OpenAI\<close>, a date
  on the current day and a content of 6000 characters scores exactly 5; an item with an
  unknown source, no date and a snippet of 50 characters scores exactly the double that
  the literal \<open>1.7\<close> denotes.
\<close>

theorem composite_score_formula:
  "score env now item =
     fl_add (fl_add (fl_mul (fl_round (4 / 10)) (of_int (source_weight env item)))
                    (fl_mul (fl_round (3 / 10)) (freshness_score env now item)))
            (fl_mul (fl_round (3 / 10)) (content_length_score item))
   \<and> (source item = Some (ustr ''OpenAI'') \<and> str_lower env (ustr ''OpenAI'') = ustr ''openai''
        \<and> dated_on_day env now item \<and> map_option length (content item) = Some 6000
      \<longrightarrow> score env now item = 5)
   \<and> (unknown_source env item \<and> date item = None \<and> content item = None
        \<and> map_option length (snippet item) = Some 50
      \<longrightarrow> score env now item = fl_round (17 / 10))"
  using scenario_a [of item env now] scenario_b [of env item _ now]
  by (auto simp: score_def composite_def)

theorem composite_score_formula_witness:
  "source item_openai = Some (ustr ''OpenAI'') \<and> str_lower lib0 (ustr ''OpenAI'') = ustr ''openai''
   \<and> dated_on_day lib0 (738641 * MICROS_PER_DAY + 3600000000) item_openai
   \<and> map_option length (content item_openai) = Some 6000
   \<and> score lib0 (738641 * MICROS_PER_DAY + 3600000000) item_openai = 5
   \<and> unknown_source lib0 item_snippet \<and> date item_snippet = None \<and> content item_snippet = None
   \<and> map_option length (snippet item_snippet) = Some 50
   \<and> score lib0 0 item_snippet = fl_round (17 / 10)"
proof -
  have a: "source item_openai = Some (ustr ''OpenAI'') \<and> str_lower lib0 (ustr ''OpenAI'') = ustr ''openai''
      \<and> dated_on_day lib0 (738641 * MICROS_PER_DAY + 3600000000) item_openai
      \<and> map_option length (content item_openai) = Some 6000"
    by (simp add: item_openai_def lib0_def ascii_lower_def ustr_def dated_on_day_def
        DATE_FORMATS_def MICROS_PER_DAY_def)
  have b: "unknown_source lib0 item_snippet \<and> date item_snippet = None \<and> content item_snippet = None
      \<and> map_option length (snippet item_snippet) = Some 50"
    by (simp add: item_snippet_def unknown_source_def lib0_def ascii_lower_def or_str_def
        SOURCE_WEIGHTS_def ustr_def)
  show ?thesis
    using a b composite_score_formula [of lib0 "738641 * MICROS_PER_DAY + 3600000000" item_openai]
      composite_score_formula [of lib0 0 item_snippet]
    by blast
qed

section \<open>Properties of pre-ranking\<close>

lemma scored_eq:
  "scored env clock items = map (\<lambda>i. (score env (clock i) (items ! i), i, items ! i)) [0..<length items]"
  unfolding scored_def enumerate_eq_zip
  by (rule nth_equalityI) simp_all

lemma ranked_perm: "mset (sort_key rank_key (scored env clock items)) = mset (scored env clock items)"
  by simp

lemma ranked_set:
  "set (sort_key rank_key (scored env clock items))
     = (\<lambda>i. (score env (clock i) (items ! i), i, items ! i)) ` {..<length items}"
  by (simp add: scored_eq atLeast0LessThan)

lemma ranked_idx_distinct:
  "distinct (map (\<lambda>t. fst (snd t)) (sort_key rank_key (scored env clock items)))"
proof -
  have "mset (map (\<lambda>t. fst (snd t)) (sort_key rank_key (scored env clock items)))
          = mset (map (\<lambda>t. fst (snd t)) (scored env clock items))"
    by simp
  also have "map (\<lambda>t. fst (snd t)) (scored env clock items) = [0..<length items]"
    by (simp add: scored_eq comp_def map_idI)
  finally show ?thesis
    by (metis distinct_upt mset_eq_imp_distinct_iff)
qed

lemma ranked_strict:
  "sorted_wrt (\<lambda>s t. rank_key s < rank_key t) (sort_key rank_key (scored env clock items))"
proof -
  let ?R = "sort_key rank_key (scored env clock items)"
  have "distinct (map (snd \<circ> rank_key) ?R)"
    using ranked_idx_distinct [of env clock items] by (simp add: rank_key_def comp_def)
  then have "distinct ?R \<and> inj_on (snd \<circ> rank_key) (set ?R)"
    by (simp only: distinct_map)
  then have "distinct (map rank_key ?R)"
    by (simp only: distinct_map) (blast intro: inj_on_imageI2)
  moreover have "sorted (map rank_key ?R)"
    by simp
  ultimately have "sorted_wrt (<) (map rank_key ?R)"
    by (simp add: strict_sorted_iff)
  then show ?thesis
    by (simp add: sorted_wrt_map)
qed

lemma rank_key_before:
  assumes "s \<in> set (scored env clock items)" "t \<in> set (scored env clock items)"
    and "rank_key s < rank_key t"
  shows "before env clock items (fst (snd s)) (fst (snd t))"
  using assms by (auto simp: scored_eq rank_key_def before_def less_prod_def)

text \<open>
  Claim C1. For every item list and every \<open>top_k \<ge> 0\<close>, \<open>pre_rank\<close> returns the items at
  a list \<open>idxs\<close> of distinct input positions, \<open>min top_k (len items)\<close> of them, ordered by
  composite score descending with equal scores in ascending input position, and every
  position left out ranks after every position returned. \<open>pre_rank items 0\<close> is empty.
\<close>

theorem pre_rank_top_k:
  assumes "0 \<le> top_k"
  shows "(\<exists>idxs. pre_rank env clock items top_k = map (\<lambda>i. items ! i) idxs
           \<and> length idxs = min (nat top_k) (length items)
           \<and> distinct idxs \<and> (\<forall>i\<in>set idxs. i < length items)
           \<and> sorted_wrt (before env clock items) idxs
           \<and> (\<forall>i\<in>set idxs. \<forall>j<length items. j \<notin> set idxs \<longrightarrow> before env clock items i j))
         \<and> pre_rank env clock items 0 = []"
proof -
  let ?R = "sort_key rank_key (scored env clock items)"
  let ?T = "take (nat top_k) ?R"
  let ?I = "map (\<lambda>t. fst (snd t)) ?T"
  have setR: "set ?R = set (scored env clock items)" by simp
  have sub: "set ?T \<subseteq> set (scored env clock items)"
    using set_take_subset [of "nat top_k" ?R] by simp
  have 1: "pre_rank env clock items top_k = map (\<lambda>i. items ! i) ?I"
    using sub assms by (auto simp: pre_rank_def slice_to_def scored_eq)
  have 2: "length ?I = min (nat top_k) (length items)"
    by (simp add: scored_eq)
  have 3: "distinct ?I"
    using ranked_idx_distinct [of env clock items]
    by (metis distinct_take take_map)
  have 4: "\<forall>i\<in>set ?I. i < length items"
    using sub by (auto simp: scored_eq)
  have "sorted_wrt (\<lambda>s t. rank_key s < rank_key t) ?T"
    using ranked_strict [of env clock items] by (rule sorted_wrt_take)
  then have "sorted_wrt (\<lambda>s t. before env clock items (fst (snd s)) (fst (snd t))) ?T"
    by (rule sorted_wrt_mono_rel [rotated]) (use sub in \<open>auto intro: rank_key_before\<close>)
  then have 5: "sorted_wrt (before env clock items) ?I"
    by (simp add: sorted_wrt_map)
  have 6: "\<forall>i\<in>set ?I. \<forall>j<length items. j \<notin> set ?I \<longrightarrow> before env clock items i j"
  proof (intro ballI allI impI)
    fix i j assume i: "i \<in> set ?I" and j: "j < length items" and nj: "j \<notin> set ?I"
    from i obtain s where s: "s \<in> set ?T" "i = fst (snd s)" by auto
    let ?t = "(score env (clock j) (items ! j), j, items ! j)"
    have tR: "?t \<in> set ?R" using j by (simp add: scored_eq)
    have tT: "?t \<notin> set ?T" using nj by force
    have "?R = ?T @ drop (nat top_k) ?R" by simp
    then have tD: "?t \<in> set (drop (nat top_k) ?R)" using tR tT
      by (metis Un_iff set_append)
    have "sorted_wrt (\<lambda>s t. rank_key s < rank_key t) (?T @ drop (nat top_k) ?R)"
      using ranked_strict [of env clock items] by simp
    then have "rank_key s < rank_key ?t"
      using s(1) tD unfolding sorted_wrt_append by blast
    then have "before env clock items (fst (snd s)) (fst (snd ?t))"
      using s(1) sub tR setR by (intro rank_key_before) auto
    then show "before env clock items i j" using s(2) by simp
  qed
  have 7: "pre_rank env clock items 0 = []"
    by (simp add: pre_rank_def slice_to_def)
  from 1 2 3 4 5 6 have "\<exists>idxs. pre_rank env clock items top_k = map (\<lambda>i. items ! i) idxs
           \<and> length idxs = min (nat top_k) (length items)
           \<and> distinct idxs \<and> (\<forall>i\<in>set idxs. i < length items)
           \<and> sorted_wrt (before env clock items) idxs
           \<and> (\<forall>i\<in>set idxs. \<forall>j<length items. j \<notin> set idxs \<longrightarrow> before env clock items i j)"
    by blast
  with 7 show ?thesis by blast
qed

theorem pre_rank_top_k_witness:
  "(0::int) \<le> 1
   \<and> pre_rank lib0 (\<lambda>_. 0) [item_ab, item_openai] 1 = [item_openai]
   \<and> pre_rank lib0 (\<lambda>_. 0) [item_ab, item_openai] 0 = []"
proof -
  have h: "(0::int) \<le> 1" by simp
  let ?xs = "[item_ab, item_openai]"
  obtain idxs where r: "pre_rank lib0 (\<lambda>_. 0) ?xs 1 = map (\<lambda>i. ?xs ! i) idxs"
    and l0: "length idxs = min (nat 1) (length ?xs)"
    and b0: "\<forall>i\<in>set idxs. i < length ?xs"
    and t0: "\<forall>i\<in>set idxs. \<forall>j<length ?xs. j \<notin> set idxs
              \<longrightarrow> before lib0 (\<lambda>_. 0) ?xs i j"
    and z: "pre_rank lib0 (\<lambda>_. 0) ?xs 0 = []"
    using pre_rank_top_k [OF h, of lib0 "\<lambda>_. 0" ?xs] by blast
  from l0 obtain i where i: "idxs = [i]"
    by (cases idxs) auto
  have "i \<noteq> 0"
  proof
    assume "i = 0"
    then have "before lib0 (\<lambda>_. 0) ?xs 0 1"
      using t0 i by simp
    then show False
      using double_1_7_less_5 by (simp add: before_def score_item_ab score_item_openai)
  qed
  then have "i = 1" using b0 i by (auto simp: less_Suc_eq)
  then show ?thesis using r i z by simp
qed

lemma ranked_prefix:
  "\<exists>idxs. map (\<lambda>(_, _, item). item) (take n (sort_key rank_key (scored env clock items)))
             = map (\<lambda>i. items ! i) idxs
           \<and> length idxs = min n (length items)
           \<and> distinct idxs \<and> (\<forall>i\<in>set idxs. i < length items)
           \<and> sorted_wrt (before env clock items) idxs
           \<and> (\<forall>i\<in>set idxs. \<forall>j<length items. j \<notin> set idxs \<longrightarrow> before env clock items i j)"
proof -
  let ?R = "sort_key rank_key (scored env clock items)"
  let ?T = "take n ?R"
  let ?I = "map (\<lambda>t. fst (snd t)) ?T"
  have setR: "set ?R = set (scored env clock items)" by simp
  have sub: "set ?T \<subseteq> set (scored env clock items)"
    using set_take_subset [of n ?R] by simp
  have 1: "map (\<lambda>(_, _, item). item) ?T = map (\<lambda>i. items ! i) ?I"
    using sub by (auto simp: scored_eq)
  have 2: "length ?I = min n (length items)"
    by (simp add: scored_eq min.commute)
  have 3: "distinct ?I"
    using ranked_idx_distinct [of env clock items]
    by (metis distinct_take take_map)
  have 4: "\<forall>i\<in>set ?I. i < length items"
    using sub by (auto simp: scored_eq)
  have "sorted_wrt (\<lambda>s t. rank_key s < rank_key t) ?T"
    using ranked_strict [of env clock items] by (rule sorted_wrt_take)
  then have "sorted_wrt (\<lambda>s t. before env clock items (fst (snd s)) (fst (snd t))) ?T"
    by (rule sorted_wrt_mono_rel [rotated]) (use sub in \<open>auto intro: rank_key_before\<close>)
  then have 5: "sorted_wrt (before env clock items) ?I"
    by (simp add: sorted_wrt_map)
  have 6: "\<forall>i\<in>set ?I. \<forall>j<length items. j \<notin> set ?I \<longrightarrow> before env clock items i j"
  proof (intro ballI allI impI)
    fix i j assume i: "i \<in> set ?I" and j: "j < length items" and nj: "j \<notin> set ?I"
    from i obtain s where s: "s \<in> set ?T" "i = fst (snd s)" by auto
    let ?t = "(score env (clock j) (items ! j), j, items ! j)"
    have tR: "?t \<in> set ?R" using j by (simp add: scored_eq)
    have tT: "?t \<notin> set ?T" using nj by force
    have "?R = ?T @ drop n ?R" by simp
    then have tD: "?t \<in> set (drop n ?R)" using tR tT
      by (metis Un_iff set_append)
    have "sorted_wrt (\<lambda>s t. rank_key s < rank_key t) (?T @ drop n ?R)"
      using ranked_strict [of env clock items] by simp
    then have "rank_key s < rank_key ?t"
      using s(1) tD unfolding sorted_wrt_append by blast
    then have "before env clock items (fst (snd s)) (fst (snd ?t))"
      using s(1) sub tR setR by (intro rank_key_before) auto
    then show "before env clock items i j" using s(2) by simp
  qed
  from 1 2 3 4 5 6 show ?thesis by blast
qed

text \<open>
  Claim C10. For \<open>top_k < 0\<close>, \<open>pre_rank\<close> does not raise. It returns the items at a list
  of distinct input positions, \<open>max 0 (len items + top_k)\<close> of them, ordered by composite
  score descending with equal scores in ascending input position, and every position left
  out ranks after every position returned: the full ranking without its last \<open>-top_k\<close>
  entries.
\<close>

theorem pre_rank_negative:
  assumes "top_k < 0"
  shows "(\<exists>idxs. pre_rank env clock items top_k = map (\<lambda>i. items ! i) idxs
           \<and> int (length idxs) = max 0 (int (length items) + top_k)
           \<and> distinct idxs \<and> (\<forall>i\<in>set idxs. i < length items)
           \<and> sorted_wrt (before env clock items) idxs
           \<and> (\<forall>i\<in>set idxs. \<forall>j<length items. j \<notin> set idxs \<longrightarrow> before env clock items i j))
         \<and> pre_rank env clock items top_k
           = take (length items - nat (- top_k)) (pre_rank env clock items (int (length items)))
         \<and> int (length (pre_rank env clock items top_k)) = max 0 (int (length items) + top_k)"
proof -
  let ?R = "sort_key rank_key (scored env clock items)"
  let ?n = "nat (int (length items) + top_k)"
  have len: "length ?R = length items" by (simp add: scored_eq)
  have n: "?n = length items - nat (- top_k)"
    using assms by arith
  have full: "pre_rank env clock items (int (length items)) = map (\<lambda>(_, _, item). item) ?R"
    using len by (simp add: pre_rank_def slice_to_def)
  have neg: "pre_rank env clock items top_k = map (\<lambda>(_, _, item). item) (take ?n ?R)"
    using assms len by (simp add: pre_rank_def slice_to_def)
  obtain idxs where idxs: "map (\<lambda>(_, _, item). item) (take ?n ?R) = map (\<lambda>i. items ! i) idxs"
      "length idxs = min ?n (length items)" "distinct idxs" "\<forall>i\<in>set idxs. i < length items"
      "sorted_wrt (before env clock items) idxs"
      "\<forall>i\<in>set idxs. \<forall>j<length items. j \<notin> set idxs \<longrightarrow> before env clock items i j"
    using ranked_prefix [of ?n env clock items] by blast
  have l: "int (length idxs) = max 0 (int (length items) + top_k)"
    using idxs(2) assms by arith
  have a: "\<exists>idxs. pre_rank env clock items top_k = map (\<lambda>i. items ! i) idxs
           \<and> int (length idxs) = max 0 (int (length items) + top_k)
           \<and> distinct idxs \<and> (\<forall>i\<in>set idxs. i < length items)
           \<and> sorted_wrt (before env clock items) idxs
           \<and> (\<forall>i\<in>set idxs. \<forall>j<length items. j \<notin> set idxs \<longrightarrow> before env clock items i j)"
    using neg idxs l by auto
  have b: "pre_rank env clock items top_k
           = take (length items - nat (- top_k)) (pre_rank env clock items (int (length items)))"
    unfolding full neg n by (simp add: take_map)
  have c: "int (length (pre_rank env clock items top_k)) = max 0 (int (length items) + top_k)"
    unfolding neg using len assms by simp
  from a b c show ?thesis by blast
qed

theorem pre_rank_negative_witness:
  "(- 1::int) < 0
   \<and> pre_rank lib0 (\<lambda>_. 0) [item_ab, item_openai] (- 1) = [item_openai]"
proof -
  have h: "(- 1::int) < 0" by simp
  let ?xs = "[item_ab, item_openai]"
  obtain idxs where r: "pre_rank lib0 (\<lambda>_. 0) ?xs (- 1) = map (\<lambda>i. ?xs ! i) idxs"
    and l0: "int (length idxs) = max 0 (int (length ?xs) + (- 1))"
    and b0: "\<forall>i\<in>set idxs. i < length ?xs"
    and t0: "\<forall>i\<in>set idxs. \<forall>j<length ?xs. j \<notin> set idxs
              \<longrightarrow> before lib0 (\<lambda>_. 0) ?xs i j"
    using pre_rank_negative [OF h, of lib0 "\<lambda>_. 0" ?xs] by blast
  from l0 obtain i where i: "idxs = [i]"
    by (cases idxs) auto
  have "i \<noteq> 0"
  proof
    assume "i = 0"
    then have "before lib0 (\<lambda>_. 0) ?xs 0 1"
      using t0 i by simp
    then show False
      using double_1_7_less_5 by (simp add: before_def score_item_ab score_item_openai)
  qed
  then have "i = 1" using b0 i by (auto simp: less_Suc_eq)
  then show ?thesis using r i by simp
qed

section \<open>Properties of the cache fingerprint\<close>

lemma items_hash_keys:
  "mset (map item_key xs) = mset (map item_key ys) \<Longrightarrow> items_hash xs = items_hash ys"
proof -
  assume "mset (map item_key xs) = mset (map item_key ys)"
  then have "sort (map item_key xs) = sort (map item_key ys)"
    by (metis sorted_list_of_multiset_mset)
  then show ?thesis by (simp add: items_hash_def)
qed

lemma utf8_char_ok: "unicode_scalar c \<Longrightarrow> \<exists>b. utf8_char c = Inr b"
  by (auto simp: unicode_scalar_def utf8_char_def)

lemma utf8_encode_ok: "list_all unicode_scalar s \<Longrightarrow> \<exists>b. utf8_encode s = Inr b"
proof (induction s)
  case Nil
  then show ?case by simp
next
  case (Cons c s)
  then obtain b bs where "utf8_char c = Inr b" "utf8_encode s = Inr bs"
    using utf8_char_ok by fastforce
  then show ?case by simp
qed

lemma hex_digit_is_hex: "n < 16 \<Longrightarrow> is_hex (hex_digit n)"
  by (auto simp: is_hex_def hex_digit_def)

lemma json_escape_scalar: "unicode_scalar c \<Longrightarrow> list_all unicode_scalar (json_escape c)"
  by (auto simp: json_escape_def unicode_scalar_def hex_digit_def)

lemma json_str_scalar: "list_all unicode_scalar s \<Longrightarrow> list_all unicode_scalar (json_str s)"
  by (induction s) (auto simp: json_str_def json_escape_scalar unicode_scalar_def)

lemma join_scalar:
  "list_all unicode_scalar sep \<Longrightarrow> list_all (list_all unicode_scalar) xs
     \<Longrightarrow> list_all unicode_scalar (join sep xs)"
  by (induction sep xs rule: join.induct) auto

lemma json_dumps_scalar:
  "list_all (list_all unicode_scalar) keys \<Longrightarrow> list_all unicode_scalar (json_dumps keys)"
proof -
  assume "list_all (list_all unicode_scalar) keys"
  then have "list_all (list_all unicode_scalar) (map json_str keys)"
    by (induction keys) (simp_all add: json_str_scalar)
  then have "list_all unicode_scalar (join [44, 32] (map json_str keys))"
    by (intro join_scalar) (simp_all add: unicode_scalar_def)
  then show ?thesis by (simp add: json_dumps_def unicode_scalar_def)
qed

lemma item_key_scalar: "encodable_item it \<Longrightarrow> list_all unicode_scalar (item_key it)"
  by (simp add: encodable_item_def item_key_def unicode_scalar_def)

lemma hex32_shape: "length (hex32 w) = 8 \<and> list_all is_hex (hex32 w)"
proof -
  have "unat (x AND 0xF) < 16" for x :: "32 word"
  proof -
    have "x AND 0xF \<le> 0xF" by (rule word_and_le1)
    then have "unat (x AND 0xF) \<le> unat (0xF :: 32 word)" by (simp add: word_le_nat_alt)
    then show ?thesis by simp
  qed
  then show ?thesis by (simp add: hex32_def hex_digit_is_hex)
qed

lemma hexdigest_shape: "length (hexdigest s) = 64 \<and> list_all is_hex (hexdigest s)"
  by (cases s rule: hexdigest.cases) (simp add: hex32_shape)

lemma take16_hex: "length (take 16 (hexdigest s)) = 16 \<and> list_all is_hex (take 16 (hexdigest s))"
  using hexdigest_shape [of s] by (auto simp: list_all_iff dest: in_set_takeD)

lemma items_hash_ok:
  assumes "list_all encodable_item xs"
  shows "\<exists>h. items_hash xs = Inr h \<and> length h = 16 \<and> list_all is_hex h"
proof -
  have "list_all (list_all unicode_scalar) (map item_key xs)"
    using assms by (induction xs) (simp_all add: item_key_scalar)
  then have "list_all (list_all unicode_scalar) (sort (map item_key xs))"
    by (simp add: list_all_iff)
  then obtain b where "utf8_encode (json_dumps (sort (map item_key xs))) = Inr b"
    using json_dumps_scalar utf8_encode_ok by blast
  then show ?thesis
    using take16_hex by (simp add: items_hash_def)
qed

lemma items_hash_ab: "items_hash [item_ab] = Inr (ustr ''6c2b14bbe61b6369'')"
  by code_simp

lemma items_hash_ab_ab: "items_hash [item_ab, item_ab] = Inr (ustr ''fbc1422abdfc9bda'')"
  by code_simp

text \<open>
  Claim C2 (amended). For every list of items whose titles and URLs consist of Unicode
  scalar values, with pairwise distinct \<open>title|url\<close> keys, and every permutation of it,
  \<open>_items_hash\<close> returns the same fingerprint for both, a string of 16 hexadecimal
  digits. The counterexample is an item whose title is a lone surrogate: the encoding to
  UTF-8 raises \<open>UnicodeEncodeError\<close> and no fingerprint is returned.
\<close>

theorem items_hash_permutation:
  assumes "mset ys = mset xs" and "distinct (map item_key xs)" and "list_all encodable_item xs"
  shows "\<exists>h. items_hash xs = Inr h \<and> items_hash ys = Inr h \<and> length h = 16 \<and> list_all is_hex h"
proof -
  have "mset (map item_key ys) = mset (map item_key xs)"
    using assms(1) by (metis mset_map)
  then have "items_hash ys = items_hash xs" by (rule items_hash_keys)
  then show ?thesis using items_hash_ok [OF assms(3)] by auto
qed

theorem items_hash_permutation_witness:
  "mset [item_openai, item_ab] = mset [item_ab, item_openai]
   \<and> distinct (map item_key [item_ab, item_openai])
   \<and> list_all encodable_item [item_ab, item_openai]
   \<and> (\<exists>h. items_hash [item_ab, item_openai] = Inr h \<and> items_hash [item_openai, item_ab] = Inr h
          \<and> length h = 16 \<and> list_all is_hex h)"
proof -
  have 1: "mset [item_openai, item_ab] = mset [item_ab, item_openai]" by simp
  have 2: "distinct (map item_key [item_ab, item_openai])"
    by (simp add: item_key_def item_ab_def item_openai_def ustr_def)
  have 3: "list_all encodable_item [item_ab, item_openai]"
    by (simp add: encodable_item_def unicode_scalar_def item_ab_def item_openai_def ustr_def)
  show ?thesis using 1 2 3 items_hash_permutation [OF 1 2 3] by blast
qed

theorem items_hash_surrogate_counterexample:
  "distinct (map item_key [item_surrogate]) \<and> mset [item_surrogate] = mset [item_surrogate]
   \<and> items_hash [item_surrogate] = Inl UnicodeEncodeError"
  by (simp add: items_hash_def item_key_def item_surrogate_def json_dumps_def json_str_def
        json_escape_def utf8_char_def ustr_def)

text \<open>
  Claim C7 (amended). The fingerprint depends only on the multiset of \<open>title|url\<close> keys:
  two item lists with the same keys, each the same number of times, give the same result.
  The counterexample repeats one item: the key sets agree and the fingerprints differ.
\<close>

theorem items_hash_same_keys:
  "mset (map item_key xs) = mset (map item_key ys) \<Longrightarrow> items_hash xs = items_hash ys"
  by (rule items_hash_keys)

theorem items_hash_same_keys_witness:
  "mset (map item_key [item_ab, item_openai]) = mset (map item_key [item_openai, item_ab_tagged])
   \<and> items_hash [item_ab, item_openai] = items_hash [item_openai, item_ab_tagged]"
proof -
  have 1: "mset (map item_key [item_ab, item_openai]) = mset (map item_key [item_openai, item_ab_tagged])"
    by (simp add: item_key_def item_ab_def item_openai_def item_ab_tagged_def)
  show ?thesis using 1 items_hash_same_keys [OF 1] by blast
qed

theorem items_hash_duplicate_counterexample:
  "set (map item_key [item_ab]) = set (map item_key [item_ab, item_ab])
   \<and> items_hash [item_ab] \<noteq> items_hash [item_ab, item_ab]"
  by (simp add: items_hash_ab items_hash_ab_ab ustr_def)

section \<open>Properties of the fallback digest\<close>

lemma ustr_eq: "ustr a = ustr b \<longleftrightarrow> a = b"
  by (simp add: ustr_def inj_map_eq_map [OF inj_of_char])

lemma all_ok_Inr: "all_ok (map Inr xs) = Inr xs"
  by (simp add: all_ok_def list_all_iff comp_def)

lemma v_list_map:
  assumes "\<And>x. x \<in> set xs \<Longrightarrow> v (f x) = Inr (g x)"
  shows "v_list v (JList (map f xs)) = Inr (map g xs)"
proof -
  have "map v (map f xs) = map Inr (map g xs)"
    using assms by (induction xs) simp_all
  then show ?thesis
    unfolding v_list_def by (simp only: json.case all_ok_Inr)
qed

lemma v_list_strs: "v_list v_str (JList (map JStr xs)) = Inr xs"
  using v_list_map [of xs v_str JStr "\<lambda>x. x"] by (simp add: v_str_def)

lemma validate_neutral:
  "validate_scores env (JDict [(ustr ''importance'', JInt 3), (ustr ''credibility'', JInt 3),
                (ustr ''freshness'', JInt 3)]) = Inr NEUTRAL_SCORES"
  by (simp add: validate_scores_def required_def v_score_def v_int_def ustr_eq NEUTRAL_SCORES_def)

lemma v_bullets_three: "v_bullets (JList [JStr a, JStr b, JStr c]) = Inr [a, b, c]"
  by (simp add: v_bullets_def v_list_def all_ok_def v_str_def)

lemma validate_story_dict:
  "validate_story env (JDict (story_dict env (ustr ''Other'') i item)) = Inr (mock_story env i item)"
  by (simp add: validate_story_def story_dict_def required_def defaulted_def ustr_eq v_str_def
        v_int_def v_list_strs v_bullets_three validate_neutral mock_story_def
        v_list_strs [of "[x]" for x, simplified])

lemma validate_section_item_dict:
  "validate_section_item env (JDict (section_item_dict env i item))
     = Inr (mock_section_item env i item)"
  by (simp add: validate_section_item_def section_item_dict_def required_def defaulted_def ustr_eq
        v_str_def v_list_strs validate_neutral mock_section_item_def)

lemma slice_to_12: "slice_to 12 xs = take 12 xs"
  by (simp add: slice_to_def)

lemma mock_loop_other:
  "foldl (mock_step env) (ss, [(ustr ''Other'', vs)]) ps
     = (ss @ map (\<lambda>p. JDict (story_dict env (ustr ''Other'') (fst p) (snd p))) ps,
        [(ustr ''Other'', vs @ map (\<lambda>p. JDict (section_item_dict env (fst p) (snd p))) ps)])"
  by (induction ps arbitrary: ss vs) (simp_all add: mock_step_def Let_def)

lemma mock_loop:
  "foldl (mock_step env) ([], []) ps
     = (map (\<lambda>p. JDict (story_dict env (ustr ''Other'') (fst p) (snd p))) ps,
        if ps = [] then []
        else [(ustr ''Other'', map (\<lambda>p. JDict (section_item_dict env (fst p) (snd p))) ps)])"
proof (cases ps)
  case Nil
  then show ?thesis by simp
next
  case (Cons p qs)
  have "foldl (mock_step env) ([], []) (p # qs)
          = foldl (mock_step env) ([JDict (story_dict env (ustr ''Other'') (fst p) (snd p))],
              [(ustr ''Other'', [JDict (section_item_dict env (fst p) (snd p))])]) qs"
    by (simp add: mock_step_def Let_def)
  then show ?thesis using Cons by (simp add: mock_loop_other)
qed

lemma v_list_nil: "v_list v (JList []) = Inr []"
  by (simp add: v_list_def all_ok_def)

lemma v_tag_index_nil: "v_tag_index (JDict []) = Inr []"
  by (simp add: v_tag_index_def all_ok_def)

lemma validate_mock_stories:
  "v_list (validate_story env)
     (JList (map (\<lambda>p. JDict (story_dict env (ustr ''Other'') (fst p) (snd p))) ps))
     = Inr (map (\<lambda>p. mock_story env (fst p) (snd p)) ps)"
  by (rule v_list_map) (rule validate_story_dict)

lemma validate_mock_section:
  "validate_section env
     (JDict [(ustr ''name'', JStr k),
             (ustr ''items'', JList (map (\<lambda>p. JDict (section_item_dict env (fst p) (snd p))) ps))])
     = Inr \<lparr>sec_name = k, sec_items = map (\<lambda>p. mock_section_item env (fst p) (snd p)) ps\<rparr>"
proof -
  have "v_list (validate_section_item env)
          (JList (map (\<lambda>p. JDict (section_item_dict env (fst p) (snd p))) ps))
          = Inr (map (\<lambda>p. mock_section_item env (fst p) (snd p)) ps)"
    by (rule v_list_map) (rule validate_section_item_dict)
  then show ?thesis
    by (simp add: validate_section_def required_def ustr_eq v_str_def)
qed

lemma validate_mock_sections:
  "\<exists>secs. v_list (validate_section env)
     (JList (map (\<lambda>(k, v). JDict [(ustr ''name'', JStr k), (ustr ''items'', JList v)])
        (snd (foldl (mock_step env) ([], []) ps)))) = Inr secs"
proof (cases "ps = []")
  case True
  then show ?thesis by (simp add: v_list_nil)
next
  case False
  then show ?thesis
    by (simp add: mock_loop v_list_def all_ok_def validate_mock_section)
qed

lemma mock_digest_result:
  "\<exists>secs. mock_digest env today items all_count =
     Inr \<lparr>schema_version = ustr ''v1'', generated_at = today,
          stats = \<lparr>items_in = all_count, items_kept = int (length (mock_stories env items)),
                   top_stories_count = int (length (mock_stories env items)),
                   duplicates_count = 0\<rparr>,
          top_stories = mock_stories env items, sections = secs,
          tag_index = [], search_summaries = [], duplicates = []\<rparr>"
proof -
  let ?ps = "enumerate 0 (take 12 items)"
  let ?acc = "foldl (mock_step env) ([], []) ?ps"
  obtain secs where secs: "v_list (validate_section env)
     (JList (map (\<lambda>(k, v). JDict [(ustr ''name'', JStr k), (ustr ''items'', JList v)]) (snd ?acc)))
       = Inr secs"
    using validate_mock_sections by blast
  have stories: "v_list (validate_story env) (JList (fst ?acc)) = Inr (mock_stories env items)"
    by (simp add: mock_loop validate_mock_stories mock_stories_def)
  have len: "length (fst ?acc) = length (mock_stories env items)"
    by (simp add: mock_loop mock_stories_def)
  have stats: "validate_stats env
      (JDict [(ustr ''items_in'', JInt all_count),
              (ustr ''items_kept'', JInt (int (length (fst ?acc)))),
              (ustr ''top_stories_count'', JInt (int (length (fst ?acc)))),
              (ustr ''duplicates_count'', JInt 0)])
      = Inr \<lparr>items_in = all_count, items_kept = int (length (mock_stories env items)),
               top_stories_count = int (length (mock_stories env items)), duplicates_count = 0\<rparr>"
    by (simp add: validate_stats_def required_def ustr_eq v_int_def len)
  have "mock_digest env today items all_count =
     Inr \<lparr>schema_version = ustr ''v1'', generated_at = today,
          stats = \<lparr>items_in = all_count, items_kept = int (length (mock_stories env items)),
                   top_stories_count = int (length (mock_stories env items)),
                   duplicates_count = 0\<rparr>,
          top_stories = mock_stories env items, sections = secs,
          tag_index = [], search_summaries = [], duplicates = []\<rparr>"
    unfolding mock_digest_def slice_to_12 Let_def model_validate_def
    by (simp add: required_def defaulted_def ustr_eq stats stories secs v_str_def v_list_nil
        v_tag_index_nil)
  then show ?thesis by blast
qed

lemma decimal_nonempty: "decimal n \<noteq> []"
  by (subst decimal.simps) simp

lemma story_id_nonempty: "story_id env i item \<noteq> []"
  by (simp add: story_id_def Let_def ustr_def)

text \<open>
  Claim C3. For every list of items and every total count the fallback returns a digest
  (validation accepts it) with \<open>items_kept = len(top_stories) = top_stories_count\<close>,
  \<open>duplicates_count = 0\<close>, \<open>items_in\<close> the count given, \<open>min 12 (len items)\<close> stories, and
  every story with section \<open>Other\<close>, exactly 3 bullets, scores (3, 3, 3) and a non-empty id.
\<close>

theorem mock_digest_shape:
  "\<exists>d. mock_digest env today items all_count = Inr d
     \<and> items_kept (stats d) = int (length (top_stories d))
     \<and> top_stories_count (stats d) = int (length (top_stories d))
     \<and> duplicates_count (stats d) = 0
     \<and> items_in (stats d) = all_count
     \<and> length (top_stories d) = min 12 (length items)
     \<and> (\<forall>t\<in>set (top_stories d).
           ts_section t = ustr ''Other'' \<and> length (bullets t) = 3
           \<and> scores t = \<lparr>importance = 3, credibility = 3, freshness = 3\<rparr>
           \<and> ts_id t \<noteq> [])"
proof -
  obtain secs where d: "mock_digest env today items all_count =
     Inr \<lparr>schema_version = ustr ''v1'', generated_at = today,
          stats = \<lparr>items_in = all_count, items_kept = int (length (mock_stories env items)),
                   top_stories_count = int (length (mock_stories env items)),
                   duplicates_count = 0\<rparr>,
          top_stories = mock_stories env items, sections = secs,
          tag_index = [], search_summaries = [], duplicates = []\<rparr>"
    using mock_digest_result by blast
  have len: "length (mock_stories env items) = min 12 (length items)"
    by (simp add: mock_stories_def min.commute)
  have each: "\<forall>t\<in>set (mock_stories env items).
           ts_section t = ustr ''Other'' \<and> length (bullets t) = 3
           \<and> scores t = \<lparr>importance = 3, credibility = 3, freshness = 3\<rparr>
           \<and> ts_id t \<noteq> []"
    by (auto simp: mock_stories_def mock_story_def NEUTRAL_SCORES_def story_id_nonempty)
  show ?thesis using d len each by simp
qed

theorem mock_digest_shape_witness:
  "\<exists>d. mock_digest lib0 (ustr ''2024-05-01'') (replicate 13 item_ab) 50 = Inr d
     \<and> items_kept (stats d) = 12
     \<and> top_stories_count (stats d) = 12
     \<and> duplicates_count (stats d) = 0
     \<and> items_in (stats d) = 50
     \<and> length (top_stories d) = 12
     \<and> list_all (\<lambda>t. ts_section t = ustr ''Other'' \<and> length (bullets t) = 3
           \<and> scores t = \<lparr>importance = 3, credibility = 3, freshness = 3\<rparr>
           \<and> ts_id t \<noteq> []) (top_stories d)"
  using mock_digest_shape [of lib0 "ustr ''2024-05-01''" "replicate 13 item_ab" 50]
  unfolding list_all_iff by fastforce

lemma mock_digest_ids:
  "map ts_id (top_stories (projr (mock_digest env today items all_count)))
     = map (\<lambda>p. story_id env (fst p) (snd p)) (enumerate 0 (take 12 items))"
  using mock_digest_result [of env today items all_count]
  by (auto simp: mock_stories_def mock_story_def)

lemma slug_a: "story_id lib0 i item_ab = ustr ''a''"
  by (simp add: story_id_def slugify_def strip_chars_def slug_char_def is_space_def lib0_def
        ascii_lower_def item_ab_def ustr_def)

lemma slug_a_bang: "story_id lib0 i item_a_bang = ustr ''a''"
  by (simp add: story_id_def slugify_def strip_chars_def slug_char_def is_space_def lib0_def
        ascii_lower_def item_a_bang_def ustr_def)

text \<open>
  Claim C8 (uniqueness of the ids of a fallback digest), evaluated at two items with
  different URLs whose titles \<open>a\<close> and \<open>A!\<close> have the same slug: both stories get the id
  \<open>a\<close>.
\<close>

theorem mock_digest_duplicate_ids:
  "\<not> isl (mock_digest lib0 (ustr ''2024-05-01'') [item_ab, item_a_bang] 2)
   \<and> url item_ab \<noteq> url item_a_bang
   \<and> map ts_id (top_stories (projr (mock_digest lib0 (ustr ''2024-05-01'') [item_ab, item_a_bang] 2)))
       = [ustr ''a'', ustr ''a'']
   \<and> \<not> distinct (map ts_id
          (top_stories (projr (mock_digest lib0 (ustr ''2024-05-01'') [item_ab, item_a_bang] 2))))"
proof -
  have "\<not> isl (mock_digest lib0 (ustr ''2024-05-01'') [item_ab, item_a_bang] 2)"
    using mock_digest_result [of lib0 "ustr ''2024-05-01''" "[item_ab, item_a_bang]" 2] by auto
  moreover have "url item_ab \<noteq> url item_a_bang"
    by (simp add: item_ab_def item_a_bang_def ustr_def)
  moreover have "map ts_id (top_stories (projr (mock_digest lib0 (ustr ''2024-05-01'') [item_ab, item_a_bang] 2)))
       = [ustr ''a'', ustr ''a'']"
    unfolding mock_digest_ids by (simp add: enumerate_eq_zip slug_a slug_a_bang upt_rec)
  ultimately show ?thesis by simp
qed

section \<open>Properties of validation\<close>























section \<open>Properties of generation\<close>














lemma cache_get_raises:
  assumes "items_hash items = Inr h" and "read_error svc h = None" and "store h = Some body"
    and "model_validate_json env svc body = Inl e"
  shows "generate_digest_json env svc settings today store items all_count True = (Inl e, store)"
  using assms by (simp add: generate_digest_json_def cache_get_def)

text \<open>
  Claim C6 (a malformed cache entry counts as a miss), evaluated at a cache whose entry
  for the fingerprint of the items does not parse: the exception of the cache read leaves
  \<open>generate_digest_json\<close>, nothing is generated and the entry stays as it was.
\<close>

theorem malformed_cache_entry_raises:
  "store_bad (ustr ''6c2b14bbe61b6369'') = Some (ustr ''not json'')
   \<and> items_hash [item_ab] = Inr (ustr ''6c2b14bbe61b6369'')
   \<and> generate_digest_json lib0 svc0 settings0 (ustr ''2024-05-01'') store_bad [item_ab] 1 True
       = (Inl ValidationError, store_bad)"
proof -
  have 1: "store_bad (ustr ''6c2b14bbe61b6369'') = Some (ustr ''not json'')"
    by (simp add: store_bad_def)
  have 2: "model_validate_json lib0 svc0 (ustr ''not json'') = Inl ValidationError"
    by (simp add: model_validate_json_def svc0_def)
  show ?thesis
    using 1 items_hash_ab cache_get_raises [where store = store_bad, OF items_hash_ab _ 1 2]
    by (simp add: svc0_def)
qed

end
